theory Spec2Isabelle
  imports Complex_Main
begin

section \<open>Progress store\<close>

text \<open>
  The persisted progress record of the hook \<^verbatim>\<open>useUserProgress\<close>:
  \<^verbatim>\<open>interface ProgressEntry { courseId: string; completedModules: string[]; }\<close>
  The collection is a JavaScript array of such entries, so it is a list here: order and
  repeated course identifiers are representable, as they are in the source. The array
  \<^verbatim>\<open>completedModules\<close> holds module identifiers in the module-granularity pages and
  chapter identifiers in the chapter-granularity page.
\<close>

record ProgressEntry =
  courseId :: string
  completedModules :: "string list"

text \<open>
  \<^verbatim>\<open>Array.prototype.findIndex\<close>: the index of the first element satisfying the
  predicate. JavaScript returns \<open>-1\<close> when there is none; that case is \<open>None\<close> here.
\<close>

fun findIndex :: "('a \<Rightarrow> bool) \<Rightarrow> 'a list \<Rightarrow> nat option" where
  "findIndex P [] = None"
| "findIndex P (x # xs) = (if P x then Some 0 else map_option Suc (findIndex P xs))"

text \<open>
  The state transformer handed to \<^verbatim>\<open>setProgress\<close> by \<^verbatim>\<open>updateProgress\<close>
  (the same text in all three copies of the hook):
  \<^verbatim>\<open>
  let newProgress = [...prevProgress];
  let courseIndex = newProgress.findIndex(p => p.courseId === courseId);
  if (courseIndex === -1) {
      newProgress.push({ courseId, completedModules: isCompleted ? [moduleId] : [] });
  } else {
      let currentEntry = newProgress[courseIndex];
      let newCompletedModules = [...currentEntry.completedModules];
      if (isCompleted && !newCompletedModules.includes(moduleId)) {
          newCompletedModules.push(moduleId);
      } else if (!isCompleted) {
          newCompletedModules = newCompletedModules.filter(id => id !== moduleId);
      }
      newProgress[courseIndex] = { ...currentEntry, completedModules: newCompletedModules };
  }
  return newProgress;
  \<close>
  The index read \<open>prevProgress ! courseIndex\<close> is in range whenever \<open>findIndex\<close>
  returns \<open>Some courseIndex\<close>.
\<close>

definition updateProgress ::
  "string \<Rightarrow> string \<Rightarrow> bool \<Rightarrow> ProgressEntry list \<Rightarrow> ProgressEntry list" where
  "updateProgress cid moduleId isCompleted prevProgress =
     (case findIndex (\<lambda>p. courseId p = cid) prevProgress of
        None \<Rightarrow>
          prevProgress @
            [\<lparr>courseId = cid,
              completedModules = (if isCompleted then [moduleId] else [])\<rparr>]
      | Some courseIndex \<Rightarrow>
          (let currentEntry = prevProgress ! courseIndex;
               newCompletedModules =
                 (if isCompleted \<and> moduleId \<notin> set (completedModules currentEntry)
                  then completedModules currentEntry @ [moduleId]
                  else if \<not> isCompleted
                  then filter (\<lambda>i. i \<noteq> moduleId) (completedModules currentEntry)
                  else completedModules currentEntry)
           in prevProgress[courseIndex :=
                currentEntry\<lparr>completedModules := newCompletedModules\<rparr>]))"

text \<open>A sequence of toggle calls \<open>(courseId, moduleId, isCompleted)\<close>, applied in call order.\<close>

fun updateAll ::
  "(string \<times> string \<times> bool) list \<Rightarrow> ProgressEntry list \<Rightarrow> ProgressEntry list" where
  "updateAll [] prevProgress = prevProgress"
| "updateAll ((cid, moduleId, isCompleted) # calls) prevProgress =
     updateAll calls (updateProgress cid moduleId isCompleted prevProgress)"

section \<open>Course catalog and completion aggregation\<close>

text \<open>
  The catalog types. \<^verbatim>\<open>SAPCourse\<close> has the same fields in every page; the pages differ
  in the module type, so the course record takes it as a parameter. In
  \<^verbatim>\<open>src/app/page.tsx\<close> a module carries chapters (\<open>Module\<close>); in the two
  \<^verbatim>\<open>SAPTrainingComponents.tsx\<close> files a module is a leaf (\<open>PlainModule\<close>).
  The declared count \<^verbatim>\<open>totalModules\<close> is a natural number in every catalog entry.
\<close>

datatype Domain = Logistics | Finance | Technical | CrossFunctional

record Chapter =
  chapter_id :: string
  chapter_title :: string
  chapter_content :: string

record Module =
  mod_id :: string
  mod_name :: string
  chapters :: "Chapter list"

record PlainModule =
  plain_id :: string
  plain_title :: string

record 'm SAPCourse =
  course_id :: string
  course_title :: string
  domain :: Domain
  totalModules :: nat
  modules :: "'m list"
  description :: string

text \<open>
  The entry a card or detail view receives as its \<^verbatim>\<open>progress\<close> property:
  \<^verbatim>\<open>progress.find(p => p.courseId === course.id)\<close>, \<open>undefined\<close> being \<open>None\<close>.
\<close>

definition courseProgress :: "'m SAPCourse \<Rightarrow> ProgressEntry list \<Rightarrow> ProgressEntry option" where
  "courseProgress course coll = find (\<lambda>p. courseId p = course_id course) coll"

text \<open>\<^verbatim>\<open>const completedCount = progress?.completedModules.length || 0;\<close>\<close>

definition completedCount :: "ProgressEntry option \<Rightarrow> nat" where
  "completedCount entry =
     (case entry of None \<Rightarrow> 0 | Some p \<Rightarrow> length (completedModules p))"

text \<open>
  The number of completed leaves of a course in a collection, as the views compute it:
  the lookup above followed by \<open>completedCount\<close>.
\<close>

definition completedLeaves :: "'m SAPCourse \<Rightarrow> ProgressEntry list \<Rightarrow> nat" where
  "completedLeaves course coll = completedCount (courseProgress course coll)"

text \<open>
  \<^verbatim>\<open>
  const getTotalChapters = (course: SAPCourse): number => {
      return course.modules.reduce((total, module) => total + module.chapters.length, 0);
  };
  \<close>
\<close>

definition getTotalChapters :: "Module SAPCourse \<Rightarrow> nat" where
  "getTotalChapters course =
     foldl (\<lambda>total m. total + length (chapters m)) 0 (modules course)"

text \<open>
  Chapter granularity (\<^verbatim>\<open>CourseCard\<close> and \<^verbatim>\<open>CourseDetail\<close> of
  \<^verbatim>\<open>src/app/page.tsx\<close>):
  \<^verbatim>\<open>
  const totalChapters = getTotalChapters(course);
  const completedCount = progress?.completedModules.length || 0;
  const completionRatio = totalChapters > 0 ? (completedCount / totalChapters) * 100 : 0;
  const isCompleted = completedCount === totalChapters && totalChapters > 0;
  \<close>
  The value is a percentage. The JavaScript division is on doubles; the real number here
  is its exact value, which agrees with the double at 0 and at 100 and in every order
  comparison used below.
\<close>

definition completionRatio :: "Module SAPCourse \<Rightarrow> ProgressEntry option \<Rightarrow> real" where
  "completionRatio course entry =
     (let totalChapters = getTotalChapters course
      in if totalChapters > 0
         then (real (completedCount entry) / real totalChapters) * 100
         else 0)"

definition isCompleted :: "Module SAPCourse \<Rightarrow> ProgressEntry option \<Rightarrow> bool" where
  "isCompleted course entry =
     (let totalChapters = getTotalChapters course
      in completedCount entry = totalChapters \<and> totalChapters > 0)"

text \<open>
  Module granularity (\<^verbatim>\<open>CourseCard\<close> and \<^verbatim>\<open>CourseDetail\<close> of
  \<^verbatim>\<open>SAPTrainingComponents.tsx\<close>):
  \<^verbatim>\<open>
  const completedCount = progress?.completedModules.length || 0;
  const completionRatio = (completedCount / course.totalModules) * 100;
  const isCompleted = completedCount === course.totalModules;
  \<close>
  There is no guard on the divisor: JavaScript yields \<open>NaN\<close> for \<open>0 / 0\<close> and
  \<open>Infinity\<close> for a positive count over \<open>0\<close>, and both survive the multiplication.
\<close>

datatype jsnumber = Finite real | PosInfinity | NaN

definition js_div :: "nat \<Rightarrow> nat \<Rightarrow> jsnumber" where
  "js_div a b =
     (if b = 0 then (if a = 0 then NaN else PosInfinity) else Finite (real a / real b))"

fun js_times :: "jsnumber \<Rightarrow> real \<Rightarrow> jsnumber" where
  "js_times (Finite x) k = Finite (x * k)"
| "js_times PosInfinity k = PosInfinity"
| "js_times NaN k = NaN"

definition completionRatioM :: "PlainModule SAPCourse \<Rightarrow> ProgressEntry option \<Rightarrow> jsnumber" where
  "completionRatioM course entry =
     js_times (js_div (completedCount entry) (totalModules course)) 100"

definition isCompletedM :: "PlainModule SAPCourse \<Rightarrow> ProgressEntry option \<Rightarrow> bool" where
  "isCompletedM course entry = (completedCount entry = totalModules course)"

text \<open>
  The leaf identifiers a catalog course currently has: the chapter identifiers of all its
  modules (\<^verbatim>\<open>module.chapters.map(c => c.id)\<close> over \<^verbatim>\<open>course.modules\<close>), or the
  module identifiers where modules are the leaves.
\<close>

definition chapterIds :: "Module SAPCourse \<Rightarrow> string list" where
  "chapterIds course = concat (map (\<lambda>m. map chapter_id (chapters m)) (modules course))"

definition moduleIds :: "PlainModule SAPCourse \<Rightarrow> string list" where
  "moduleIds course = map plain_id (modules course)"

text \<open>
  The completed count as the specification words it, for comparison with the code: the
  stored array of the course's entry is first filtered against the leaf identifiers that
  exist in the catalog, and the survivors are counted.
\<close>

definition completedLeaves_filtered ::
  "string list \<Rightarrow> 'm SAPCourse \<Rightarrow> ProgressEntry list \<Rightarrow> nat" where
  "completedLeaves_filtered leafIds course coll =
     (case courseProgress course coll of
        None \<Rightarrow> 0
      | Some p \<Rightarrow> length (filter (\<lambda>i. i \<in> set leafIds) (completedModules p)))"

text \<open>
  Two catalog entries used as concrete inputs. The first is course \<open>mm\<close> of
  \<^verbatim>\<open>src/app/page.tsx\<close> shrunk to its first module with its two chapters (texts
  shortened); the second is course \<open>sd\<close> of \<^verbatim>\<open>SAPTrainingComponents.tsx\<close> as
  declared there.
\<close>

definition mm_first_module :: "Module SAPCourse" where
  "mm_first_module =
     \<lparr>course_id = ''mm'', course_title = ''SAP MM (Materials Management)'',
      domain = Logistics, totalModules = 1,
      modules =
        [\<lparr>mod_id = ''mm-1'', mod_name = ''Master Data Setup (Vendor & Material)'',
          chapters =
            [\<lparr>chapter_id = ''mm-c1.1'', chapter_title = ''Material Master Views & Creation'',
              chapter_content = ''The Material Master is central to logistics.''\<rparr>,
             \<lparr>chapter_id = ''mm-c1.2'', chapter_title = ''Vendor Master (Business Partner)'',
              chapter_content = ''The Vendor Master is now part of the Business Partner.''\<rparr>]\<rparr>],
      description = ''Comprehensive guide to procurement processes.''\<rparr>"

definition sd_course :: "PlainModule SAPCourse" where
  "sd_course =
     \<lparr>course_id = ''sd'', course_title = ''SAP SD (Sales and Distribution)'',
      domain = Logistics, totalModules = 4,
      modules =
        [\<lparr>plain_id = ''sd-1'', plain_title = ''Sales Order Creation and Types''\<rparr>,
         \<lparr>plain_id = ''sd-2'', plain_title = ''Pricing and Condition Techniques''\<rparr>,
         \<lparr>plain_id = ''sd-3'', plain_title = ''Delivery Processing and Picking''\<rparr>,
         \<lparr>plain_id = ''sd-4'', plain_title = ''Billing and Invoicing''\<rparr>],
      description =
        ''Master the Order-to-Cash process including sales order creation, shipping, and billing.''\<rparr>"

section \<open>Loading the persisted state\<close>

text \<open>
  Parsed JSON, and the exceptions of the two effectful functions: a rejected
  \<^verbatim>\<open>fetch\<close>, the \<open>SyntaxError\<close> of \<^verbatim>\<open>JSON.parse\<close> and
  \<^verbatim>\<open>response.json()\<close>, the \<open>TypeError\<close> of a property read on \<open>null\<close>, and
  the two \<^verbatim>\<open>Error\<close> values the request wrapper constructs. Then the state of the
  hook and the part of the browser it touches; the console records the arguments of
  \<^verbatim>\<open>console.error\<close>.
\<close>

datatype json_value =
  JNull | JBool bool | JNumber real | JString string | JArray "json_value list"
  | JObject "(string \<times> json_value) list"

datatype error =
  FetchFailed string
  | JsonSyntaxError
  | NullPropertyError
  | ApiRequestFailed nat string json_value
  | MaximumRetriesReached

record HookState =
  progress :: "ProgressEntry list"
  loading :: bool
  userId :: string

record Browser =
  localStorage :: "string \<rightharpoonup> string"
  console :: "(string \<times> error) list"

definition USER_ID_KEY :: string where
  "USER_ID_KEY = ''sap_user_id''"

definition PROGRESS_KEY :: string where
  "PROGRESS_KEY = ''sap_progress''"

text \<open>
  \<^verbatim>\<open>useState<ProgressEntry[]>([])\<close>, \<^verbatim>\<open>useState(true)\<close>,
  \<^verbatim>\<open>useState('Initializing...')\<close>.
\<close>

definition initialState :: HookState where
  "initialState = \<lparr>progress = [], loading = True, userId = ''Initializing...''\<rparr>"

text \<open>
  The mount effect:
  \<^verbatim>\<open>
  let storedUserId = localStorage.getItem(USER_ID_KEY);
  if (!storedUserId) {
      storedUserId = crypto.randomUUID();
      localStorage.setItem(USER_ID_KEY, storedUserId);
  }
  setUserId(storedUserId);
  const storedProgress = localStorage.getItem(PROGRESS_KEY);
  if (storedProgress) {
      try {
          setProgress(JSON.parse(storedProgress));
      } catch (error) {
          console.error("Error parsing progress from localStorage:", error);
          setProgress([]);
      }
  }
  setLoading(false);
  \<close>
  \<^verbatim>\<open>JSON.parse\<close> belongs to the platform and is a parameter: \<open>parse s\<close> is
  \<open>Inl e\<close> when it throws \<open>e\<close> and \<open>Inr v\<close> when it returns \<open>v\<close>, read at the type
  \<^verbatim>\<open>ProgressEntry[]\<close> the state declares. The value of \<^verbatim>\<open>crypto.randomUUID()\<close> is
  a parameter too. \<^verbatim>\<open>getItem\<close> returns \<open>null\<close> for a missing key (\<open>None\<close>), and
  both \<open>null\<close> and the empty string are falsy. The result is a sum so that an exception
  leaving the effect would be an \<open>Inl\<close>.
\<close>

definition loadInitialData ::
  "(string \<Rightarrow> error + ProgressEntry list) \<Rightarrow> string \<Rightarrow> Browser \<times> HookState
     \<Rightarrow> error + Browser \<times> HookState" where
  "loadInitialData parse randomUUID bs =
     (case bs of (browser, st) \<Rightarrow>
        let (storedUserId, browser1) =
              (case localStorage browser USER_ID_KEY of
                 None \<Rightarrow>
                   (randomUUID,
                    browser\<lparr>localStorage :=
                      (localStorage browser)(USER_ID_KEY \<mapsto> randomUUID)\<rparr>)
               | Some u \<Rightarrow>
                   if u = [] then
                     (randomUUID,
                      browser\<lparr>localStorage :=
                        (localStorage browser)(USER_ID_KEY \<mapsto> randomUUID)\<rparr>)
                   else (u, browser));
            st1 = st\<lparr>userId := storedUserId\<rparr>
        in case localStorage browser1 PROGRESS_KEY of
             None \<Rightarrow> Inr (browser1, st1\<lparr>loading := False\<rparr>)
           | Some storedProgress \<Rightarrow>
               if storedProgress = [] then Inr (browser1, st1\<lparr>loading := False\<rparr>)
               else
                 (case parse storedProgress of
                    Inr parsed \<Rightarrow>
                      Inr (browser1, st1\<lparr>progress := parsed, loading := False\<rparr>)
                  | Inl error \<Rightarrow>
                      Inr (browser1\<lparr>console := console browser1 @
                             [(''Error parsing progress from localStorage:'', error)]\<rparr>,
                           st1\<lparr>progress := [], loading := False\<rparr>)))"

text \<open>
  A stand-in for \<^verbatim>\<open>JSON.parse\<close> on three inputs, for concrete runs: it accepts the
  empty array and one serialised entry, and throws on everything else.
\<close>

definition parse_sample :: "string \<Rightarrow> error + ProgressEntry list" where
  "parse_sample s =
     (if s = ''[]'' then Inr []
      else if s = ''[{\"courseId\":\"mm\",\"completedModules\":[\"mm-1\"]}]''
      then Inr [\<lparr>courseId = ''mm'', completedModules = [''mm-1'']\<rparr>]
      else Inl JsonSyntaxError)"

section \<open>Request wrapper with exponential backoff\<close>

text \<open>
  What the wrapper sees of a \<^verbatim>\<open>Response\<close>: the status line and the result of
  \<^verbatim>\<open>response.json()\<close>, \<open>None\<close> when the body is not JSON and the call rejects.
  \<^verbatim>\<open>response.ok\<close> is the Fetch standard's test on the status.
\<close>

record Response =
  status :: nat
  statusText :: string
  json_body :: "json_value option"

definition ok :: "Response \<Rightarrow> bool" where
  "ok response = (200 \<le> status response \<and> status response \<le> 299)"

text \<open>
  The environment of one call: \<open>net env k\<close> is how the \<open>k\<close>-th call of
  \<^verbatim>\<open>fetch\<close> settles (rejected at network level, or resolved with a response) and
  \<open>rnd env k\<close> is the \<open>k\<close>-th value of \<^verbatim>\<open>Math.random()\<close>. A run records how
  many of each were consumed and the observable trace: every fetch and every timer wait
  with its delay in milliseconds.
\<close>

datatype fetch_outcome = Rejected string | Resolved Response

datatype event = Fetch | Sleep real

record Env =
  net :: "nat \<Rightarrow> fetch_outcome"
  rnd :: "nat \<Rightarrow> real"

record Run =
  fetched :: nat
  drawn :: nat
  trace :: "event list"

definition fetch :: "Env \<Rightarrow> Run \<Rightarrow> fetch_outcome \<times> Run" where
  "fetch env run =
     (net env (fetched run),
      run\<lparr>fetched := fetched run + 1, trace := trace run @ [Fetch]\<rparr>)"

definition random :: "Env \<Rightarrow> Run \<Rightarrow> real \<times> Run" where
  "random env run = (rnd env (drawn run), run\<lparr>drawn := drawn run + 1\<rparr>)"

definition setTimeout :: "real \<Rightarrow> Run \<Rightarrow> Run" where
  "setTimeout delay run = run\<lparr>trace := trace run @ [Sleep delay]\<rparr>"

text \<open>
  The two lines that occur twice in the source, in the 429 branch and in the handler:
  \<^verbatim>\<open>
  const delay = Math.pow(2, i) * 1000 + Math.random() * 1000;
  await new Promise(resolve => setTimeout(resolve, delay));
  \<close>
\<close>

definition backoff :: "Env \<Rightarrow> nat \<Rightarrow> Run \<Rightarrow> Run" where
  "backoff env i run =
     (let (r, run') = random env run;
          delay = 2 ^ i * 1000 + r * 1000
      in setTimeout delay run')"

text \<open>
  The body of the \<^verbatim>\<open>try\<close> block of iteration \<open>i\<close>, with the three ways it can end:
  \<^verbatim>\<open>
  const response = await fetch(url, options);
  if (!response.ok) {
      const errorData = await response.json();
      if (response.status === 429 && i < maxRetries - 1) {
          const delay = Math.pow(2, i) * 1000 + Math.random() * 1000;
          await new Promise(resolve => setTimeout(resolve, delay));
          continue;
      }
      throw new Error(`API request failed: ${response.status} ${response.statusText} - ${
          errorData.error?.message || 'Unknown error'}`);
  }
  return await response.json();
  \<close>
  The thrown \<^verbatim>\<open>Error\<close> is represented by the three values its message is built from.
  Reading \<^verbatim>\<open>errorData.error\<close> throws a \<open>TypeError\<close> when the parsed body is
  \<open>null\<close>. The comparison with \<open>maxRetries - 1\<close> is on integers, since the JavaScript
  subtraction does not truncate at zero.
\<close>

datatype completion = Return json_value | Continue | Thrown error

definition attempt :: "Env \<Rightarrow> nat \<Rightarrow> nat \<Rightarrow> Run \<Rightarrow> completion \<times> Run" where
  "attempt env maxRetries i run =
     (let (outcome, run1) = fetch env run in
      case outcome of
        Rejected msg \<Rightarrow> (Thrown (FetchFailed msg), run1)
      | Resolved response \<Rightarrow>
          if \<not> ok response then
            (case json_body response of
               None \<Rightarrow> (Thrown JsonSyntaxError, run1)
             | Some errorData \<Rightarrow>
                 if status response = 429 \<and> int i < int maxRetries - 1 then
                   (Continue, backoff env i run1)
                 else
                   (case errorData of
                      JNull \<Rightarrow> (Thrown NullPropertyError, run1)
                    | _ \<Rightarrow>
                        (Thrown (ApiRequestFailed (status response) (statusText response)
                                   errorData), run1)))
          else
            (case json_body response of
               None \<Rightarrow> (Thrown JsonSyntaxError, run1)
             | Some body \<Rightarrow> (Return body, run1)))"

text \<open>
  The loop with its handler:
  \<^verbatim>\<open>
  for (let i = 0; i < maxRetries; i++) {
      try { ... } catch (error) {
          if (i === maxRetries - 1) {
              throw error;
          }
          const delay = Math.pow(2, i) * 1000 + Math.random() * 1000;
          await new Promise(resolve => setTimeout(resolve, delay));
      }
  }
  throw new Error("Maximum retries reached.");
  \<close>
  Everything thrown inside the \<^verbatim>\<open>try\<close> block reaches the handler, the
  \<^verbatim>\<open>Error\<close> of a failed status included.
\<close>

function fetchLoop :: "Env \<Rightarrow> nat \<Rightarrow> nat \<Rightarrow> Run \<Rightarrow> (error + json_value) \<times> Run" where
  "fetchLoop env maxRetries i run =
     (if i < maxRetries then
        (case attempt env maxRetries i run of
           (Return body, run') \<Rightarrow> (Inr body, run')
         | (Continue, run') \<Rightarrow> fetchLoop env maxRetries (i + 1) run'
         | (Thrown error, run') \<Rightarrow>
             if int i = int maxRetries - 1 then (Inl error, run')
             else fetchLoop env maxRetries (i + 1) (backoff env i run'))
      else (Inl MaximumRetriesReached, run))"
  by pat_completeness auto
termination
  by (relation "measure (\<lambda>(env, maxRetries, i, run). maxRetries - i)") auto

declare fetchLoop.simps [simp del]

definition fetchWithExponentialBackoff :: "Env \<Rightarrow> nat \<Rightarrow> (error + json_value) \<times> Run" where
  "fetchWithExponentialBackoff env maxRetries =
     fetchLoop env maxRetries 0 \<lparr>fetched = 0, drawn = 0, trace = []\<rparr>"

text \<open>
  Concrete environments. In the first the server answers 400 once and then 200; in the
  second it answers 429 three times and then 200. \<^verbatim>\<open>Math.random()\<close> returns
  one half throughout.
\<close>

definition bad_request_response :: Response where
  "bad_request_response =
     \<lparr>status = 400, statusText = ''Bad Request'',
      json_body =
        Some (JObject [(''error'', JObject [(''message'', JString ''API key not valid'')])])\<rparr>"

definition rate_limited_response :: Response where
  "rate_limited_response =
     \<lparr>status = 429, statusText = ''Too Many Requests'',
      json_body =
        Some (JObject [(''error'', JObject [(''message'', JString ''Quota exceeded'')])])\<rparr>"

definition success_response :: Response where
  "success_response =
     \<lparr>status = 200, statusText = ''OK'',
      json_body = Some (JObject [(''candidates'', JArray [])])\<rparr>"

definition bad_request_then_ok :: Env where
  "bad_request_then_ok =
     \<lparr>net = (\<lambda>k. if k = 0 then Resolved bad_request_response
                  else Resolved success_response),
      rnd = (\<lambda>k. 1 / 2)\<rparr>"

definition rate_limited_then_ok :: Env where
  "rate_limited_then_ok =
     \<lparr>net = (\<lambda>k. if k < 3 then Resolved rate_limited_response
                  else Resolved success_response),
      rnd = (\<lambda>k. 1 / 2)\<rparr>"

section \<open>Facts about the index search\<close>

lemma findIndex_None_iff: "findIndex P xs = None \<longleftrightarrow> (\<forall>x \<in> set xs. \<not> P x)"
  by (induction xs) auto

lemma findIndex_Some_bound: "findIndex P xs = Some i \<Longrightarrow> i < length xs"
  by (induction xs arbitrary: i) (auto split: if_splits)

lemma findIndex_Some_holds: "findIndex P xs = Some i \<Longrightarrow> P (xs ! i)"
  by (induction xs arbitrary: i) (auto split: if_splits)

lemma findIndex_update_same:
  "findIndex P xs = Some i \<Longrightarrow> P y \<Longrightarrow> findIndex P (xs[i := y]) = Some i"
  by (induction xs arbitrary: i) (auto split: if_splits)

lemma findIndex_append_new:
  "findIndex P xs = None \<Longrightarrow> P y \<Longrightarrow> findIndex P (xs @ [y]) = Some (length xs)"
  by (induction xs) (auto split: if_splits)

lemma find_findIndex: "find P xs = map_option (\<lambda>i. xs ! i) (findIndex P xs)"
  by (induction xs) (auto simp: option.map_comp comp_def)

lemma filter_update_irrelevant:
  "i < length xs \<Longrightarrow> \<not> P (xs ! i) \<Longrightarrow> \<not> P y \<Longrightarrow> filter P (xs[i := y]) = filter P xs"
proof (induction xs arbitrary: i)
  case Nil
  then show ?case by simp
next
  case (Cons x xs)
  then show ?case by (cases i) auto
qed

section \<open>Properties of the toggle operation\<close>

lemma updateProgress_absent:
  "findIndex (\<lambda>p. courseId p = cid) coll = None \<Longrightarrow>
   updateProgress cid m b coll =
     coll @ [\<lparr>courseId = cid, completedModules = (if b then [m] else [])\<rparr>]"
  by (simp add: updateProgress_def)

lemma updateProgress_present:
  "findIndex (\<lambda>p. courseId p = cid) coll = Some i \<Longrightarrow>
   updateProgress cid m b coll =
     coll[i := (coll ! i)\<lparr>completedModules :=
        (if b then (if m \<in> set (completedModules (coll ! i))
                    then completedModules (coll ! i)
                    else completedModules (coll ! i) @ [m])
         else filter (\<lambda>i. i \<noteq> m) (completedModules (coll ! i)))\<rparr>]"
  by (simp add: updateProgress_def Let_def)

lemma findIndex_set_modules:
  assumes "findIndex (\<lambda>p. courseId p = cid) coll = Some i"
  shows "findIndex (\<lambda>p. courseId p = cid)
           (coll[i := (coll ! i)\<lparr>completedModules := ms\<rparr>]) = Some i"
proof -
  have "courseId (coll ! i) = cid"
    using findIndex_Some_holds[OF assms] .
  then have "courseId ((coll ! i)\<lparr>completedModules := ms\<rparr>) = cid" by simp
  with assms show ?thesis by (rule findIndex_update_same)
qed

lemma map_courseId_set_modules:
  "map courseId (coll[i := (coll ! i)\<lparr>completedModules := ms\<rparr>]) = map courseId coll"
proof (rule nth_equalityI)
  show "length (map courseId (coll[i := (coll ! i)\<lparr>completedModules := ms\<rparr>])) =
        length (map courseId coll)"
    by simp
next
  fix j
  assume "j < length (map courseId (coll[i := (coll ! i)\<lparr>completedModules := ms\<rparr>]))"
  then have "j < length coll" by simp
  then show "map courseId (coll[i := (coll ! i)\<lparr>completedModules := ms\<rparr>]) ! j =
             map courseId coll ! j"
    by (cases "j = i") simp_all
qed

lemma map_courseId_updateProgress:
  "map courseId (updateProgress c l b coll) =
     (case findIndex (\<lambda>p. courseId p = c) coll of
        None \<Rightarrow> map courseId coll @ [c] | Some i \<Rightarrow> map courseId coll)"
proof (cases "findIndex (\<lambda>p. courseId p = c) coll")
  case None
  then show ?thesis by (simp add: updateProgress_absent)
next
  case (Some i)
  then show ?thesis
    by (simp only: updateProgress_present map_courseId_set_modules) simp
qed

lemma courseIds_updateAll:
  "set (map courseId coll) \<subseteq> set (map courseId (updateAll calls coll))"
proof (induction calls arbitrary: coll)
  case Nil
  then show ?case by simp
next
  case (Cons call calls)
  obtain c l b where call: "call = (c, l, b)" by (cases call) auto
  have "set (map courseId coll) \<subseteq> set (map courseId (updateProgress c l b coll))"
    by (simp only: map_courseId_updateProgress) (auto split: option.splits)
  also have "\<dots> \<subseteq> set (map courseId (updateAll calls (updateProgress c l b coll)))"
    by (rule Cons.IH)
  finally show ?case by (simp add: call)
qed

text \<open>
  Claim C5. The toggle is idempotent: for every collection, course identifier \<open>c\<close> and
  leaf identifier \<open>l\<close>, marking \<open>l\<close> complete twice gives the same array as marking it
  once, and marking it incomplete twice gives the same array as marking it incomplete
  once.
\<close>

theorem updateProgress_idempotent:
  "updateProgress c l True (updateProgress c l True coll) = updateProgress c l True coll
   \<and> updateProgress c l False (updateProgress c l False coll) = updateProgress c l False coll"
proof (cases "findIndex (\<lambda>p. courseId p = c) coll")
  case None
  then show ?thesis
    by (simp add: updateProgress_absent updateProgress_present findIndex_append_new)
next
  case (Some i)
  then have i: "i < length coll" by (rule findIndex_Some_bound)
  have again: "\<And>b ms. updateProgress c l b (coll[i := (coll ! i)\<lparr>completedModules := ms\<rparr>])
     = coll[i := (coll ! i)\<lparr>completedModules :=
        (if b then (if l \<in> set ms then ms else ms @ [l]) else filter (\<lambda>i. i \<noteq> l) ms)\<rparr>]"
    using i by (simp add: updateProgress_present[OF findIndex_set_modules[OF Some]])
  show ?thesis
    by (simp add: updateProgress_present[OF Some] again)
qed

text \<open>
  Claim C6. No toggle removes a course entry: after any sequence of toggle calls every
  course identifier that had an entry still has one. In particular, after marking a leaf
  \<open>l\<close> of course \<open>c\<close> complete and then incomplete, the entry of \<open>c\<close> is present and
  does not contain \<open>l\<close>; when the course had no entry before, or an entry holding nothing
  but \<open>l\<close>, that entry has the empty array and the completed count of the course is 0.
\<close>

theorem updateProgress_keeps_entries:
  "set (map courseId coll) \<subseteq> set (map courseId (updateAll calls coll))
   \<and> (\<exists>e. find (\<lambda>p. courseId p = c)
             (updateProgress c l False (updateProgress c l True coll)) = Some e
          \<and> l \<notin> set (completedModules e)
          \<and> ((\<forall>p. find (\<lambda>p. courseId p = c) coll = Some p \<longrightarrow>
                  set (completedModules p) \<subseteq> {l})
               \<longrightarrow> completedModules e = []
                 \<and> completedCount (find (\<lambda>p. courseId p = c)
                     (updateProgress c l False (updateProgress c l True coll))) = 0))"
proof (cases "findIndex (\<lambda>p. courseId p = c) coll")
  case None
  have "updateProgress c l False (updateProgress c l True coll)
          = coll @ [\<lparr>courseId = c, completedModules = []\<rparr>]"
    using None
    by (simp add: updateProgress_absent updateProgress_present findIndex_append_new)
  moreover have "find (\<lambda>p. courseId p = c) (coll @ [\<lparr>courseId = c, completedModules = []\<rparr>])
     = Some \<lparr>courseId = c, completedModules = []\<rparr>"
    using None by (simp add: find_findIndex findIndex_append_new)
  ultimately show ?thesis
    using courseIds_updateAll[of coll calls] by (simp add: completedCount_def)
next
  case (Some i)
  have i: "i < length coll" using Some by (rule findIndex_Some_bound)
  define ms where "ms = filter (\<lambda>i. i \<noteq> l)
      (if l \<in> set (completedModules (coll ! i)) then completedModules (coll ! i)
       else completedModules (coll ! i) @ [l])"
  define e where "e = (coll ! i)\<lparr>completedModules := ms\<rparr>"
  have twice: "updateProgress c l False (updateProgress c l True coll) = coll[i := e]"
    using i unfolding ms_def e_def
    by (simp add: updateProgress_present[OF Some]
          updateProgress_present[OF findIndex_set_modules[OF Some]])
  have found: "find (\<lambda>p. courseId p = c) (coll[i := e]) = Some e"
    using i unfolding e_def by (simp add: find_findIndex findIndex_set_modules[OF Some])
  have notin: "l \<notin> set (completedModules e)" unfolding ms_def e_def by simp
  have before: "find (\<lambda>p. courseId p = c) coll = Some (coll ! i)"
    using Some by (simp add: find_findIndex)
  have empty: "completedModules e = []" if "set (completedModules (coll ! i)) \<subseteq> {l}"
    using that unfolding ms_def e_def by (auto simp: filter_empty_conv)
  have "find (\<lambda>p. courseId p = c)
             (updateProgress c l False (updateProgress c l True coll)) = Some e
          \<and> l \<notin> set (completedModules e)
          \<and> ((\<forall>p. find (\<lambda>p. courseId p = c) coll = Some p \<longrightarrow>
                  set (completedModules p) \<subseteq> {l})
               \<longrightarrow> completedModules e = []
                 \<and> completedCount (find (\<lambda>p. courseId p = c)
                     (updateProgress c l False (updateProgress c l True coll))) = 0)"
    using found notin empty by (simp add: twice before completedCount_def)
  then show ?thesis
    using courseIds_updateAll[of coll calls] by blast
qed

theorem updateProgress_keeps_entries_witness:
  "set (map courseId [\<lparr>courseId = ''mm'', completedModules = [''mm-1'']\<rparr>])
     \<subseteq> set (map courseId
           (updateAll [(''mm'', ''mm-1'', False), (''sd'', ''sd-1'', True)]
              [\<lparr>courseId = ''mm'', completedModules = [''mm-1'']\<rparr>]))
   \<and> find (\<lambda>p. courseId p = ''mm'') [\<lparr>courseId = ''mm'', completedModules = [''mm-1'']\<rparr>]
       = Some \<lparr>courseId = ''mm'', completedModules = [''mm-1'']\<rparr>
   \<and> set [''mm-1''] \<subseteq> {''mm-1''}
   \<and> completedCount (find (\<lambda>p. courseId p = ''mm'')
        (updateProgress ''mm'' ''mm-1'' False
           (updateProgress ''mm'' ''mm-1'' True
              [\<lparr>courseId = ''mm'', completedModules = [''mm-1'']\<rparr>]))) = 0"
proof -
  have h: "\<forall>p. find (\<lambda>p. courseId p = ''mm'')
             [\<lparr>courseId = ''mm'', completedModules = [''mm-1'']\<rparr>] = Some p \<longrightarrow>
           set (completedModules p) \<subseteq> {''mm-1''}"
    by simp
  have "find (\<lambda>p. courseId p = ''mm'') [\<lparr>courseId = ''mm'', completedModules = [''mm-1'']\<rparr>]
       = Some \<lparr>courseId = ''mm'', completedModules = [''mm-1'']\<rparr>"
    by simp
  moreover have "set [''mm-1''] \<subseteq> {''mm-1''}" by simp
  ultimately show ?thesis
    using h updateProgress_keeps_entries
      [of "[\<lparr>courseId = ''mm'', completedModules = [''mm-1'']\<rparr>]"
          "[(''mm'', ''mm-1'', False), (''sd'', ''sd-1'', True)]" "''mm''" "''mm-1''"]
    by blast
qed

text \<open>
  Claim C9. Marking a leaf incomplete for a course that has no entry does not leave the
  collection unchanged: the result is the collection with the new entry
  \<open>{ courseId: c, completedModules: [] }\<close> appended.
\<close>

theorem updateProgress_absent_incomplete_appends:
  "findIndex (\<lambda>p. courseId p = c) coll = None \<Longrightarrow>
     updateProgress c l False coll = coll @ [\<lparr>courseId = c, completedModules = []\<rparr>]
     \<and> updateProgress c l False coll \<noteq> coll"
  by (simp add: updateProgress_absent)

theorem updateProgress_absent_incomplete_appends_witness:
  "findIndex (\<lambda>p. courseId p = ''mm'')
     [\<lparr>courseId = ''sd'', completedModules = [''sd-1'']\<rparr>] = None
   \<and> updateProgress ''mm'' ''mm-1'' False [\<lparr>courseId = ''sd'', completedModules = [''sd-1'']\<rparr>]
     = [\<lparr>courseId = ''sd'', completedModules = [''sd-1'']\<rparr>,
        \<lparr>courseId = ''mm'', completedModules = []\<rparr>]"
proof -
  have h: "findIndex (\<lambda>p. courseId p = ''mm'')
     [\<lparr>courseId = ''sd'', completedModules = [''sd-1'']\<rparr>] = None"
    by simp
  show ?thesis
    using h updateProgress_absent_incomplete_appends[OF h, of "''mm-1''"] by simp
qed

text \<open>
  Claim C10. A toggle for course \<open>c\<close> leaves every other course alone: the entries whose
  course identifier differs from \<open>c\<close> are the same entries in the same order, every such
  entry stays at its index, the course identifiers of the old positions are unchanged, and
  the array grows by at most one entry, which is then an entry of \<open>c\<close> at the end.
\<close>

theorem updateProgress_frame:
  "filter (\<lambda>e. courseId e \<noteq> c) (updateProgress c l b coll) =
     filter (\<lambda>e. courseId e \<noteq> c) coll
   \<and> (\<forall>i < length coll. courseId (coll ! i) \<noteq> c \<longrightarrow>
         updateProgress c l b coll ! i = coll ! i)
   \<and> map courseId (take (length coll) (updateProgress c l b coll)) = map courseId coll
   \<and> length coll \<le> length (updateProgress c l b coll)
   \<and> length (updateProgress c l b coll) \<le> length coll + 1
   \<and> (length (updateProgress c l b coll) = length coll + 1 \<longrightarrow>
        courseId (last (updateProgress c l b coll)) = c)"
proof (cases "findIndex (\<lambda>p. courseId p = c) coll")
  case None
  then show ?thesis
    by (simp add: updateProgress_absent nth_append)
next
  case (Some i)
  have i: "i < length coll" using Some by (rule findIndex_Some_bound)
  have ci: "courseId (coll ! i) = c" using findIndex_Some_holds[OF Some] .
  define ms where "ms =
     (if b then (if l \<in> set (completedModules (coll ! i)) then completedModules (coll ! i)
                 else completedModules (coll ! i) @ [l])
      else filter (\<lambda>i. i \<noteq> l) (completedModules (coll ! i)))"
  have upd: "updateProgress c l b coll = coll[i := (coll ! i)\<lparr>completedModules := ms\<rparr>]"
    unfolding ms_def using Some by (rule updateProgress_present)
  have 1: "filter (\<lambda>e. courseId e \<noteq> c) (updateProgress c l b coll) =
     filter (\<lambda>e. courseId e \<noteq> c) coll"
    unfolding upd using i ci by (intro filter_update_irrelevant) simp_all
  have 2: "\<forall>j < length coll. courseId (coll ! j) \<noteq> c \<longrightarrow>
         updateProgress c l b coll ! j = coll ! j"
  proof (intro allI impI)
    fix j
    assume "j < length coll" and "courseId (coll ! j) \<noteq> c"
    with ci have "i \<noteq> j" by auto
    then show "updateProgress c l b coll ! j = coll ! j"
      unfolding upd by simp
  qed
  have 3: "map courseId (take (length coll) (updateProgress c l b coll)) = map courseId coll"
    unfolding upd by (simp add: map_courseId_set_modules)
  have 4: "length (updateProgress c l b coll) = length coll"
    unfolding upd by simp
  from 1 2 3 4 show ?thesis by simp
qed

theorem updateProgress_frame_witness:
  "(0::nat) < length [\<lparr>courseId = ''sd'', completedModules = [''sd-1'']\<rparr>,
                      \<lparr>courseId = ''mm'', completedModules = [''mm-1'']\<rparr>]
   \<and> courseId ([\<lparr>courseId = ''sd'', completedModules = [''sd-1'']\<rparr>,
                 \<lparr>courseId = ''mm'', completedModules = [''mm-1'']\<rparr>] ! 0) \<noteq> ''mm''
   \<and> updateProgress ''mm'' ''mm-2'' True
        [\<lparr>courseId = ''sd'', completedModules = [''sd-1'']\<rparr>,
         \<lparr>courseId = ''mm'', completedModules = [''mm-1'']\<rparr>] ! 0
      = \<lparr>courseId = ''sd'', completedModules = [''sd-1'']\<rparr>"
proof -
  let ?coll = "[\<lparr>courseId = ''sd'', completedModules = [''sd-1'']\<rparr>,
                \<lparr>courseId = ''mm'', completedModules = [''mm-1'']\<rparr>]"
  have "\<forall>i < length ?coll. courseId (?coll ! i) \<noteq> ''mm'' \<longrightarrow>
          updateProgress ''mm'' ''mm-2'' True ?coll ! i = ?coll ! i"
    using updateProgress_frame[of "''mm''" "''mm-2''" True ?coll] by blast
  then have "(0::nat) < length ?coll \<longrightarrow> courseId (?coll ! 0) \<noteq> ''mm'' \<longrightarrow>
          updateProgress ''mm'' ''mm-2'' True ?coll ! 0 = ?coll ! 0"
    by blast
  then show ?thesis by simp
qed

section \<open>Properties of the completion aggregation\<close>

lemma foldl_plus_length:
  "foldl (\<lambda>total m. total + length (f m)) a ms = a + length (concat (map f ms))"
  by (induction ms arbitrary: a) simp_all

lemma getTotalChapters_sum:
  "getTotalChapters course = (\<Sum>m\<leftarrow>modules course. length (chapters m))"
  by (simp add: getTotalChapters_def foldl_plus_length length_concat comp_def)

lemma getTotalChapters_chapterIds: "getTotalChapters course = length (chapterIds course)"
  by (simp add: getTotalChapters_def chapterIds_def foldl_plus_length length_concat comp_def)

lemma distinct_subset_length:
  assumes "distinct xs" "distinct ys" "set xs \<subseteq> set ys"
  shows "length xs \<le> length ys" and "length xs = length ys \<longleftrightarrow> set ys \<subseteq> set xs"
proof -
  have cx: "card (set xs) = length xs" and cy: "card (set ys) = length ys"
    using assms by (simp_all add: distinct_card)
  show "length xs \<le> length ys"
    using card_mono[OF finite_set assms(3)] cx cy by simp
  show "length xs = length ys \<longleftrightarrow> set ys \<subseteq> set xs"
  proof
    assume "length xs = length ys"
    then have "card (set xs) = card (set ys)" using cx cy by simp
    with assms(3) have "set xs = set ys" by (simp add: card_subset_eq)
    then show "set ys \<subseteq> set xs" by simp
  next
    assume "set ys \<subseteq> set xs"
    with assms(3) have "set xs = set ys" by auto
    then show "length xs = length ys" using cx cy by simp
  qed
qed

lemma percent_le_one:
  "a \<le> n \<Longrightarrow> 0 < n \<Longrightarrow> real a / real n * 100 / 100 \<le> 1"
  by simp

lemma percent_eq_one:
  "0 < n \<Longrightarrow> real a / real n * 100 / 100 = 1 \<longleftrightarrow> a = n"
  by auto

lemma completedCount_le_leaves:
  assumes "distinct leafIds"
    and "\<forall>p. entry = Some p \<longrightarrow>
           distinct (completedModules p) \<and> set (completedModules p) \<subseteq> set leafIds"
  shows "completedCount entry \<le> length leafIds"
proof (cases entry)
  case None
  then show ?thesis by (simp add: completedCount_def)
next
  case (Some p)
  with assms show ?thesis
    by (simp add: completedCount_def distinct_subset_length(1))
qed

lemma completedCount_eq_leaves:
  assumes "distinct leafIds" "leafIds \<noteq> []"
    and "\<forall>p. entry = Some p \<longrightarrow>
           distinct (completedModules p) \<and> set (completedModules p) \<subseteq> set leafIds"
  shows "completedCount entry = length leafIds \<longleftrightarrow>
         (\<exists>p. entry = Some p \<and> set leafIds \<subseteq> set (completedModules p))"
proof (cases entry)
  case None
  with assms(2) show ?thesis by (simp add: completedCount_def)
next
  case (Some p)
  with assms show ?thesis
    by (simp add: completedCount_def distinct_subset_length(2))
qed

lemma ratio_chapters:
  assumes "distinct (chapterIds course)"
    and "\<forall>p. entry = Some p \<longrightarrow>
           distinct (completedModules p) \<and> set (completedModules p) \<subseteq> set (chapterIds course)"
  shows "completionRatio course entry / 100 \<le> 1"
    and "0 < getTotalChapters course \<Longrightarrow>
       completionRatio course entry / 100 = 1 \<longleftrightarrow>
         (\<exists>p. entry = Some p \<and> set (chapterIds course) \<subseteq> set (completedModules p))"
proof -
  let ?n = "getTotalChapters course"
  have n: "?n = length (chapterIds course)" by (rule getTotalChapters_chapterIds)
  have le: "completedCount entry \<le> ?n"
    unfolding n using assms by (rule completedCount_le_leaves)
  show "completionRatio course entry / 100 \<le> 1"
  proof (cases "0 < ?n")
    case True
    then have "completionRatio course entry / 100 =
               real (completedCount entry) / real ?n * 100 / 100"
      by (simp add: completionRatio_def Let_def)
    also have "\<dots> \<le> 1" using le True by (rule percent_le_one)
    finally show ?thesis .
  next
    case False
    then show ?thesis by (simp add: completionRatio_def Let_def)
  qed
  assume pos: "0 < ?n"
  then have ne: "chapterIds course \<noteq> []" using n by auto
  have "completionRatio course entry / 100 = 1 \<longleftrightarrow> completedCount entry = ?n"
    using pos by (auto simp: completionRatio_def Let_def)
  also have "\<dots> \<longleftrightarrow>
      (\<exists>p. entry = Some p \<and> set (chapterIds course) \<subseteq> set (completedModules p))"
    unfolding n using assms(1) ne assms(2) by (rule completedCount_eq_leaves)
  finally show "completionRatio course entry / 100 = 1 \<longleftrightarrow>
         (\<exists>p. entry = Some p \<and> set (chapterIds course) \<subseteq> set (completedModules p))" .
qed

lemma ratio_modules:
  assumes "0 < totalModules cm" "totalModules cm = length (modules cm)"
    and "distinct (moduleIds cm)"
    and "\<forall>p. entry = Some p \<longrightarrow>
           distinct (completedModules p) \<and> set (completedModules p) \<subseteq> set (moduleIds cm)"
  shows "\<exists>r. completionRatioM cm entry = Finite r \<and> 0 \<le> r / 100 \<and> r / 100 \<le> 1
            \<and> (r / 100 = 1 \<longleftrightarrow>
                 (\<exists>p. entry = Some p \<and> set (moduleIds cm) \<subseteq> set (completedModules p)))"
proof -
  let ?n = "totalModules cm"
  let ?r = "real (completedCount entry) / real ?n * 100"
  have n: "?n = length (moduleIds cm)" using assms(2) by (simp add: moduleIds_def)
  have ne: "moduleIds cm \<noteq> []" using assms(1) n by auto
  have fin: "completionRatioM cm entry = Finite ?r"
    using assms(1) by (simp add: completionRatioM_def js_div_def)
  have le: "completedCount entry \<le> ?n"
    unfolding n using assms(3,4) by (rule completedCount_le_leaves)
  have one: "?r / 100 = 1 \<longleftrightarrow> completedCount entry = ?n"
    using assms(1) by (rule percent_eq_one)
  have full: "completedCount entry = ?n \<longleftrightarrow>
     (\<exists>p. entry = Some p \<and> set (moduleIds cm) \<subseteq> set (completedModules p))"
    unfolding n using assms(3) ne assms(4) by (rule completedCount_eq_leaves)
  have "0 \<le> ?r / 100" by simp
  moreover have "?r / 100 \<le> 1" using le assms(1) by (rule percent_le_one)
  ultimately show ?thesis using fin one full by blast
qed

text \<open>
  Claim C1, as amended. The completed count of a course is the length of the array stored
  in the course's entry (0 when the course has no entry); the array is not filtered
  against the catalog. The count is never below the filtered count of the specification,
  and the two agree whenever every stored identifier is a leaf identifier of the catalog.
\<close>

theorem completedLeaves_is_stored_length:
  "completedLeaves course coll =
     (case find (\<lambda>p. courseId p = course_id course) coll of
        None \<Rightarrow> 0 | Some p \<Rightarrow> length (completedModules p))
   \<and> completedLeaves_filtered leafIds course coll \<le> completedLeaves course coll
   \<and> ((\<forall>p. find (\<lambda>p. courseId p = course_id course) coll = Some p \<longrightarrow>
            set (completedModules p) \<subseteq> set leafIds)
        \<longrightarrow> completedLeaves course coll = completedLeaves_filtered leafIds course coll)"
  by (auto simp: completedLeaves_filtered_def completedLeaves_def completedCount_def
        courseProgress_def subset_iff split: option.splits)

theorem completedLeaves_is_stored_length_witness:
  "find (\<lambda>p. courseId p = course_id mm_first_module)
      [\<lparr>courseId = ''mm'', completedModules = [''mm-c1.2'']\<rparr>]
     = Some \<lparr>courseId = ''mm'', completedModules = [''mm-c1.2'']\<rparr>
   \<and> set [''mm-c1.2''] \<subseteq> set (chapterIds mm_first_module)
   \<and> completedLeaves mm_first_module [\<lparr>courseId = ''mm'', completedModules = [''mm-c1.2'']\<rparr>] = 1
   \<and> completedLeaves_filtered (chapterIds mm_first_module) mm_first_module
        [\<lparr>courseId = ''mm'', completedModules = [''mm-c1.2'']\<rparr>] = 1"
proof -
  let ?coll = "[\<lparr>courseId = ''mm'', completedModules = [''mm-c1.2'']\<rparr>]"
  have f: "find (\<lambda>p. courseId p = course_id mm_first_module) ?coll
     = Some \<lparr>courseId = ''mm'', completedModules = [''mm-c1.2'']\<rparr>"
    by (simp add: mm_first_module_def)
  have s: "set [''mm-c1.2''] \<subseteq> set (chapterIds mm_first_module)"
    by (simp add: mm_first_module_def chapterIds_def)
  have h: "\<forall>p. find (\<lambda>p. courseId p = course_id mm_first_module) ?coll = Some p \<longrightarrow>
            set (completedModules p) \<subseteq> set (chapterIds mm_first_module)"
    using s by (simp add: f)
  have "completedLeaves mm_first_module ?coll =
     (case find (\<lambda>p. courseId p = course_id mm_first_module) ?coll of
        None \<Rightarrow> 0 | Some p \<Rightarrow> length (completedModules p))"
    using completedLeaves_is_stored_length[of mm_first_module ?coll] by blast
  then have "completedLeaves mm_first_module ?coll = 1"
    unfolding f by simp
  moreover have "completedLeaves mm_first_module ?coll =
      completedLeaves_filtered (chapterIds mm_first_module) mm_first_module ?coll"
    using h completedLeaves_is_stored_length[of mm_first_module ?coll "chapterIds mm_first_module"]
    by blast
  ultimately show ?thesis using f s by simp
qed

text \<open>
  The claim as stated fails: course \<open>mm\<close> has the chapters \<open>mm-c1.1\<close> and \<open>mm-c1.2\<close>;
  its entry stores \<open>mm-c1.1\<close> and the identifier \<open>mm-1\<close>, which is no chapter of the
  catalog (the module-granularity page writes module identifiers under the same storage
  key). The view counts 2; filtering against the catalog leaves 1.
\<close>

theorem completedLeaves_counts_orphan:
  "completedLeaves mm_first_module
     [\<lparr>courseId = ''mm'', completedModules = [''mm-c1.1'', ''mm-1'']\<rparr>] = 2
   \<and> completedLeaves_filtered (chapterIds mm_first_module) mm_first_module
        [\<lparr>courseId = ''mm'', completedModules = [''mm-c1.1'', ''mm-1'']\<rparr>] = 1
   \<and> ''mm-1'' \<notin> set (chapterIds mm_first_module)"
  by (simp add: completedLeaves_filtered_def completedLeaves_def completedCount_def
        courseProgress_def mm_first_module_def chapterIds_def)

text \<open>
  Claim C3, as amended. The ratio is the view's percentage divided by 100. For every
  course and collection of the chapter-granularity page it is at least 0, it is 0 when the
  course has no chapters, and it is 0 when the course has no entry. When the chapter
  identifiers of the course are distinct and the course's entry stores distinct
  identifiers that are all chapter identifiers of the course, the ratio is at most 1, and
  for a course with at least one chapter it is exactly 1 exactly when every chapter
  identifier is stored. On the module-granularity pages the same bounds and the same
  characterisation of 1 hold when the declared \<open>totalModules\<close> is positive and equals the
  number of modules, under the same conditions on the identifiers.
\<close>

theorem completionRatio_bounds:
  "0 \<le> completionRatio course (courseProgress course coll) / 100
   \<and> (getTotalChapters course = 0 \<longrightarrow>
        completionRatio course (courseProgress course coll) = 0)
   \<and> (courseProgress course coll = None \<longrightarrow>
        completionRatio course (courseProgress course coll) = 0)
   \<and> (distinct (chapterIds course)
        \<and> (\<forall>p. courseProgress course coll = Some p \<longrightarrow>
              distinct (completedModules p)
              \<and> set (completedModules p) \<subseteq> set (chapterIds course))
       \<longrightarrow> completionRatio course (courseProgress course coll) / 100 \<le> 1
           \<and> (0 < getTotalChapters course \<longrightarrow>
                (completionRatio course (courseProgress course coll) / 100 = 1 \<longleftrightarrow>
                   (\<exists>p. courseProgress course coll = Some p
                        \<and> set (chapterIds course) \<subseteq> set (completedModules p)))))
   \<and> (0 < totalModules cm \<and> totalModules cm = length (modules cm)
        \<and> distinct (moduleIds cm)
        \<and> (\<forall>p. courseProgress cm coll = Some p \<longrightarrow>
              distinct (completedModules p)
              \<and> set (completedModules p) \<subseteq> set (moduleIds cm))
       \<longrightarrow> (\<exists>r. completionRatioM cm (courseProgress cm coll) = Finite r
                \<and> 0 \<le> r / 100 \<and> r / 100 \<le> 1
                \<and> (r / 100 = 1 \<longleftrightarrow>
                     (\<exists>p. courseProgress cm coll = Some p
                          \<and> set (moduleIds cm) \<subseteq> set (completedModules p)))))"
proof -
  have a: "0 \<le> completionRatio course (courseProgress course coll) / 100"
    by (simp add: completionRatio_def Let_def)
  have b: "getTotalChapters course = 0 \<longrightarrow>
          completionRatio course (courseProgress course coll) = 0"
    by (simp add: completionRatio_def)
  have c: "courseProgress course coll = None \<longrightarrow>
          completionRatio course (courseProgress course coll) = 0"
    by (simp add: completionRatio_def completedCount_def Let_def)
  show ?thesis
    using a b c ratio_chapters[of course "courseProgress course coll"]
      ratio_modules[of cm "courseProgress cm coll"]
    by blast
qed

theorem completionRatio_bounds_witness:
  "getTotalChapters (mm_first_module\<lparr>modules := []\<rparr>) = 0
   \<and> completionRatio (mm_first_module\<lparr>modules := []\<rparr>)
        (courseProgress (mm_first_module\<lparr>modules := []\<rparr>)
           [\<lparr>courseId = ''mm'', completedModules = [''mm-c1.2'']\<rparr>]) = 0
   \<and> courseProgress mm_first_module [] = None
   \<and> completionRatio mm_first_module (courseProgress mm_first_module []) = 0
   \<and> distinct (chapterIds mm_first_module)
   \<and> courseProgress mm_first_module [\<lparr>courseId = ''mm'', completedModules = [''mm-c1.2'']\<rparr>]
       = Some \<lparr>courseId = ''mm'', completedModules = [''mm-c1.2'']\<rparr>
   \<and> 0 < getTotalChapters mm_first_module
   \<and> completionRatio mm_first_module
        (courseProgress mm_first_module
           [\<lparr>courseId = ''mm'', completedModules = [''mm-c1.2'']\<rparr>]) / 100 \<le> 1
   \<and> completionRatio mm_first_module
        (courseProgress mm_first_module
           [\<lparr>courseId = ''mm'', completedModules = [''mm-c1.2'']\<rparr>]) / 100 \<noteq> 1
   \<and> 0 < totalModules sd_course
   \<and> totalModules sd_course = length (modules sd_course)
   \<and> distinct (moduleIds sd_course)
   \<and> (\<exists>r. completionRatioM sd_course
              (courseProgress sd_course
                 [\<lparr>courseId = ''sd'', completedModules = [''sd-1'', ''sd-3'']\<rparr>]) = Finite r
          \<and> r / 100 \<le> 1)"
proof -
  let ?empty = "mm_first_module\<lparr>modules := []\<rparr>"
  let ?coll = "[\<lparr>courseId = ''mm'', completedModules = [''mm-c1.2'']\<rparr>]"
  let ?sd = "[\<lparr>courseId = ''sd'', completedModules = [''sd-1'', ''sd-3'']\<rparr>]"
  have z: "getTotalChapters ?empty = 0"
    by (simp add: getTotalChapters_def)
  have z': "completionRatio ?empty (courseProgress ?empty ?coll) = 0"
    using z completionRatio_bounds[where course = ?empty and coll = ?coll] by blast
  have n: "courseProgress mm_first_module [] = None"
    by (simp add: courseProgress_def)
  have n': "completionRatio mm_first_module (courseProgress mm_first_module []) = 0"
    using n completionRatio_bounds[where course = mm_first_module and coll = "[]"] by blast
  have d: "distinct (chapterIds mm_first_module)"
    by (simp add: chapterIds_def mm_first_module_def)
  have f: "courseProgress mm_first_module ?coll
       = Some \<lparr>courseId = ''mm'', completedModules = [''mm-c1.2'']\<rparr>"
    by (simp add: courseProgress_def mm_first_module_def)
  have h: "\<forall>p. courseProgress mm_first_module ?coll = Some p \<longrightarrow>
              distinct (completedModules p)
              \<and> set (completedModules p) \<subseteq> set (chapterIds mm_first_module)"
    unfolding f by (simp add: chapterIds_def mm_first_module_def)
  have pos: "0 < getTotalChapters mm_first_module"
    by (simp add: getTotalChapters_def mm_first_module_def)
  have le: "completionRatio mm_first_module (courseProgress mm_first_module ?coll) / 100 \<le> 1"
    using d h completionRatio_bounds[where course = mm_first_module and coll = ?coll] by blast
  have "\<not> (\<exists>p. courseProgress mm_first_module ?coll = Some p
              \<and> set (chapterIds mm_first_module) \<subseteq> set (completedModules p))"
    unfolding f by (simp add: chapterIds_def mm_first_module_def)
  then have ne: "completionRatio mm_first_module (courseProgress mm_first_module ?coll) / 100 \<noteq> 1"
    using d h pos completionRatio_bounds[where course = mm_first_module and coll = ?coll] by blast
  have m1: "0 < totalModules sd_course" "totalModules sd_course = length (modules sd_course)"
    by (simp_all add: sd_course_def)
  have m2: "distinct (moduleIds sd_course)"
    by (simp add: moduleIds_def sd_course_def)
  have m3: "\<forall>p. courseProgress sd_course ?sd = Some p \<longrightarrow>
              distinct (completedModules p)
              \<and> set (completedModules p) \<subseteq> set (moduleIds sd_course)"
    by (simp add: courseProgress_def moduleIds_def sd_course_def)
  have m: "\<exists>r. completionRatioM sd_course (courseProgress sd_course ?sd) = Finite r
          \<and> r / 100 \<le> 1"
    using m1 m2 m3 completionRatio_bounds[where cm = sd_course and coll = ?sd] by blast
  show ?thesis
    using z z' n n' d f pos le ne m1 m2 m by blast
qed

text \<open>
  The claim as stated fails on a collection holding identifiers that are not in the
  catalog. Course \<open>mm\<close> has two chapters. With the three module identifiers \<open>mm-1\<close>,
  \<open>mm-2\<close>, \<open>mm-3\<close> stored, the ratio is 3/2; with \<open>mm-1\<close> and \<open>mm-2\<close> stored, the
  ratio is exactly 1 although no chapter of the catalog is in the stored set.
\<close>

theorem completionRatio_exceeds_one:
  "completionRatio mm_first_module
     (courseProgress mm_first_module
        [\<lparr>courseId = ''mm'', completedModules = [''mm-1'', ''mm-2'', ''mm-3'']\<rparr>]) / 100 = 3 / 2
   \<and> \<not> completionRatio mm_first_module
     (courseProgress mm_first_module
        [\<lparr>courseId = ''mm'', completedModules = [''mm-1'', ''mm-2'', ''mm-3'']\<rparr>]) / 100 \<le> 1
   \<and> completionRatio mm_first_module
     (courseProgress mm_first_module
        [\<lparr>courseId = ''mm'', completedModules = [''mm-1'', ''mm-2'']\<rparr>]) / 100 = 1
   \<and> \<not> set (chapterIds mm_first_module) \<subseteq> set [''mm-1'', ''mm-2'']"
  by (simp add: completionRatio_def getTotalChapters_def completedCount_def courseProgress_def
        mm_first_module_def chapterIds_def)

lemma js_percent_of_one_inj:
  "js_times (js_div 1 a) 100 = js_times (js_div 1 b) 100 \<Longrightarrow> a = b"
  by (auto simp: js_div_def split: if_splits)

lemma completedCount_replicate:
  "completedCount (Some \<lparr>courseId = c, completedModules = replicate k x\<rparr>) = k"
  by (simp add: completedCount_def)

lemma completionRatioM_agrees_iff:
  "(\<forall>e. completionRatioM cm e =
          js_times (js_div (completedCount e) (length (modules cm))) 100)
   \<longleftrightarrow> totalModules cm = length (modules cm)"
proof
  assume all: "\<forall>e. completionRatioM cm e =
          js_times (js_div (completedCount e) (length (modules cm))) 100"
  let ?e = "Some \<lparr>courseId = [], completedModules = replicate 1 []\<rparr>"
  have "completionRatioM cm ?e =
          js_times (js_div (completedCount ?e) (length (modules cm))) 100"
    using all by blast
  then have "js_times (js_div 1 (totalModules cm)) 100 =
             js_times (js_div 1 (length (modules cm))) 100"
    unfolding completionRatioM_def completedCount_replicate .
  then show "totalModules cm = length (modules cm)"
    by (rule js_percent_of_one_inj)
next
  assume "totalModules cm = length (modules cm)"
  then show "\<forall>e. completionRatioM cm e =
          js_times (js_div (completedCount e) (length (modules cm))) 100"
    by (simp add: completionRatioM_def)
qed

lemma isCompletedM_agrees_iff:
  "(\<forall>e. isCompletedM cm e = (completedCount e = length (modules cm)))
   \<longleftrightarrow> totalModules cm = length (modules cm)"
proof
  assume all: "\<forall>e. isCompletedM cm e = (completedCount e = length (modules cm))"
  let ?e = "Some \<lparr>courseId = [], completedModules = replicate (totalModules cm) []\<rparr>"
  have "isCompletedM cm ?e = (completedCount ?e = length (modules cm))"
    using all by blast
  then show "totalModules cm = length (modules cm)"
    unfolding isCompletedM_def completedCount_replicate by simp
next
  assume "totalModules cm = length (modules cm)"
  then show "\<forall>e. isCompletedM cm e = (completedCount e = length (modules cm))"
    by (simp add: isCompletedM_def)
qed

text \<open>
  Claim C8, as amended. On the chapter-granularity page the denominator of the ratio and
  the number compared in the completion check is the computed sum of the chapter counts of
  the course's modules; the declared \<open>totalModules\<close> has no influence. On the
  module-granularity pages the denominator and the number compared in the completion
  check is the declared \<open>totalModules\<close> field, and the list of modules has no influence.
  When the declared field equals the number of modules the view gives the result of the
  computed module count; and the view gives that result for every progress entry exactly
  when the declared field equals the number of modules. For a single entry the two can
  coincide although the counts differ, as they do at 0 percent for a course with no
  entry.
\<close>

theorem ratio_denominator:
  "completionRatio course entry =
      (if 0 < (\<Sum>m\<leftarrow>modules course. length (chapters m))
       then real (completedCount entry) / real (\<Sum>m\<leftarrow>modules course. length (chapters m)) * 100
       else 0)
   \<and> isCompleted course entry =
      (completedCount entry = (\<Sum>m\<leftarrow>modules course. length (chapters m))
       \<and> 0 < (\<Sum>m\<leftarrow>modules course. length (chapters m)))
   \<and> completionRatio (course\<lparr>totalModules := n\<rparr>) entry = completionRatio course entry
   \<and> isCompleted (course\<lparr>totalModules := n\<rparr>) entry = isCompleted course entry
   \<and> completionRatioM cm entry =
        js_times (js_div (completedCount entry) (totalModules cm)) 100
   \<and> isCompletedM cm entry = (completedCount entry = totalModules cm)
   \<and> completionRatioM (cm\<lparr>modules := ms\<rparr>) entry = completionRatioM cm entry
   \<and> isCompletedM (cm\<lparr>modules := ms\<rparr>) entry = isCompletedM cm entry
   \<and> (totalModules cm = length (modules cm) \<longrightarrow>
        completionRatioM cm entry =
          js_times (js_div (completedCount entry) (length (modules cm))) 100
        \<and> isCompletedM cm entry = (completedCount entry = length (modules cm)))
   \<and> ((\<forall>e. completionRatioM cm e =
              js_times (js_div (completedCount e) (length (modules cm))) 100)
        \<longleftrightarrow> totalModules cm = length (modules cm))
   \<and> ((\<forall>e. isCompletedM cm e = (completedCount e = length (modules cm)))
        \<longleftrightarrow> totalModules cm = length (modules cm))"
proof -
  have pointwise: "completionRatio course entry =
      (if 0 < (\<Sum>m\<leftarrow>modules course. length (chapters m))
       then real (completedCount entry) / real (\<Sum>m\<leftarrow>modules course. length (chapters m)) * 100
       else 0)
   \<and> isCompleted course entry =
      (completedCount entry = (\<Sum>m\<leftarrow>modules course. length (chapters m))
       \<and> 0 < (\<Sum>m\<leftarrow>modules course. length (chapters m)))
   \<and> completionRatio (course\<lparr>totalModules := n\<rparr>) entry = completionRatio course entry
   \<and> isCompleted (course\<lparr>totalModules := n\<rparr>) entry = isCompleted course entry
   \<and> completionRatioM cm entry =
        js_times (js_div (completedCount entry) (totalModules cm)) 100
   \<and> isCompletedM cm entry = (completedCount entry = totalModules cm)
   \<and> completionRatioM (cm\<lparr>modules := ms\<rparr>) entry = completionRatioM cm entry
   \<and> isCompletedM (cm\<lparr>modules := ms\<rparr>) entry = isCompletedM cm entry
   \<and> (totalModules cm = length (modules cm) \<longrightarrow>
        completionRatioM cm entry =
          js_times (js_div (completedCount entry) (length (modules cm))) 100
        \<and> isCompletedM cm entry = (completedCount entry = length (modules cm)))"
    by (simp add: completionRatio_def isCompleted_def completionRatioM_def isCompletedM_def
          getTotalChapters_sum Let_def getTotalChapters_def)
  show ?thesis
    using pointwise completionRatioM_agrees_iff[of cm] isCompletedM_agrees_iff[of cm]
    by blast
qed

theorem ratio_denominator_witness:
  "totalModules sd_course = length (modules sd_course)
   \<and> completionRatioM sd_course (Some \<lparr>courseId = ''sd'', completedModules = [''sd-1'']\<rparr>)
       = js_times (js_div 1 (length (modules sd_course))) 100
   \<and> js_times (js_div 1 (length (modules sd_course))) 100 = Finite 25
   \<and> totalModules (sd_course\<lparr>modules := take 2 (modules sd_course)\<rparr>)
        \<noteq> length (modules (sd_course\<lparr>modules := take 2 (modules sd_course)\<rparr>))
   \<and> (\<exists>e. completionRatioM (sd_course\<lparr>modules := take 2 (modules sd_course)\<rparr>) e \<noteq>
           js_times (js_div (completedCount e)
             (length (modules (sd_course\<lparr>modules := take 2 (modules sd_course)\<rparr>)))) 100)"
proof -
  let ?entry = "Some \<lparr>courseId = ''sd'', completedModules = [''sd-1'']\<rparr>"
  let ?short = "sd_course\<lparr>modules := take 2 (modules sd_course)\<rparr>"
  have h: "totalModules sd_course = length (modules sd_course)"
    by (simp add: sd_course_def)
  have c: "completedCount ?entry = 1"
    by (simp add: completedCount_def)
  have "completionRatioM sd_course ?entry =
          js_times (js_div (completedCount ?entry) (length (modules sd_course))) 100"
    using h ratio_denominator[where cm = sd_course and entry = ?entry] by blast
  then have a: "completionRatioM sd_course ?entry =
          js_times (js_div 1 (length (modules sd_course))) 100"
    unfolding c .
  have b: "js_times (js_div 1 (length (modules sd_course))) 100 = Finite 25"
    by (simp add: js_div_def sd_course_def)
  have d: "totalModules ?short \<noteq> length (modules ?short)"
    by (simp add: sd_course_def)
  have "(\<forall>e. completionRatioM ?short e =
              js_times (js_div (completedCount e) (length (modules ?short))) 100)
        \<longleftrightarrow> totalModules ?short = length (modules ?short)"
    using ratio_denominator[where cm = ?short] by blast
  with d have e: "\<exists>e. completionRatioM ?short e \<noteq>
           js_times (js_div (completedCount e) (length (modules ?short))) 100"
    by blast
  from h a b d e show ?thesis by blast
qed

text \<open>
  The claim as stated fails on the module-granularity pages. Course \<open>sd\<close> declares
  \<open>totalModules = 4\<close>; with only its first two modules listed and both completed, the
  computed module count is 2 and the count over it is 100 percent, but the view shows 50
  percent and does not report the course complete.
\<close>

theorem declared_count_is_denominator:
  "length (modules (sd_course\<lparr>modules := take 2 (modules sd_course)\<rparr>)) = 2
   \<and> completedCount (Some \<lparr>courseId = ''sd'', completedModules = [''sd-1'', ''sd-2'']\<rparr>) = 2
   \<and> js_times (js_div 2 2) 100 = Finite 100
   \<and> completionRatioM (sd_course\<lparr>modules := take 2 (modules sd_course)\<rparr>)
        (Some \<lparr>courseId = ''sd'', completedModules = [''sd-1'', ''sd-2'']\<rparr>) = Finite 50
   \<and> \<not> isCompletedM (sd_course\<lparr>modules := take 2 (modules sd_course)\<rparr>)
        (Some \<lparr>courseId = ''sd'', completedModules = [''sd-1'', ''sd-2'']\<rparr>)"
  by (simp add: completionRatioM_def isCompletedM_def js_div_def completedCount_def
        sd_course_def)

section \<open>Properties of loading the persisted state\<close>

text \<open>
  Claim C7. The mount effect never raises: for every browser state it returns a new hook
  state with loading finished. When the progress key is absent, or its string does not
  parse, the collection is the empty array; a parse failure of a non-empty string is
  logged to the console and not raised. When the string parses, the parsed entries become
  the collection. \<^verbatim>\<open>JSON.parse\<close> is assumed to throw on the empty string, as it
  does.
\<close>

theorem loadInitialData_recovers:
  assumes "\<exists>e. parse [] = Inl e"
  shows "\<exists>browser' st'.
      loadInitialData parse uuid (browser, initialState) = Inr (browser', st')
      \<and> loading st' = False
      \<and> (case localStorage browser PROGRESS_KEY of
            None \<Rightarrow> progress st' = [] \<and> console browser' = console browser
          | Some s \<Rightarrow>
              (case parse s of
                 Inl e \<Rightarrow> progress st' = []
                   \<and> console browser' = console browser @
                        (if s = [] then []
                         else [(''Error parsing progress from localStorage:'', e)])
               | Inr parsed \<Rightarrow> progress st' = parsed \<and> console browser' = console browser))"
  using assms
  by (auto simp: loadInitialData_def initialState_def USER_ID_KEY_def PROGRESS_KEY_def Let_def
      split: option.splits sum.splits)

theorem loadInitialData_recovers_witness:
  "parse_sample [] = Inl JsonSyntaxError
   \<and> parse_sample ''[{courseId:'' = Inl JsonSyntaxError
   \<and> (\<exists>browser' st'.
        loadInitialData parse_sample ''0b9f''
          (\<lparr>localStorage = [PROGRESS_KEY \<mapsto> ''[{courseId:''], console = []\<rparr>, initialState)
          = Inr (browser', st')
        \<and> progress st' = []
        \<and> console browser' = [(''Error parsing progress from localStorage:'', JsonSyntaxError)])
   \<and> parse_sample ''[{\"courseId\":\"mm\",\"completedModules\":[\"mm-1\"]}]''
       = Inr [\<lparr>courseId = ''mm'', completedModules = [''mm-1'']\<rparr>]
   \<and> (\<exists>browser' st'.
        loadInitialData parse_sample ''0b9f''
          (\<lparr>localStorage =
              [PROGRESS_KEY \<mapsto> ''[{\"courseId\":\"mm\",\"completedModules\":[\"mm-1\"]}]''],
            console = []\<rparr>, initialState)
          = Inr (browser', st')
        \<and> progress st' = [\<lparr>courseId = ''mm'', completedModules = [''mm-1'']\<rparr>]
        \<and> console browser' = [])"
proof -
  let ?bad = "''[{courseId:''"
  let ?good = "''[{\"courseId\":\"mm\",\"completedModules\":[\"mm-1\"]}]''"
  let ?browser = "\<lambda>s. \<lparr>localStorage = [PROGRESS_KEY \<mapsto> s], console = []\<rparr>"
  have p0: "parse_sample [] = Inl JsonSyntaxError"
    by (simp add: parse_sample_def)
  then have h: "\<exists>e. parse_sample [] = Inl e" by blast
  have pb: "parse_sample ?bad = Inl JsonSyntaxError"
    by (simp add: parse_sample_def)
  have pg: "parse_sample ?good = Inr [\<lparr>courseId = ''mm'', completedModules = [''mm-1'']\<rparr>]"
    by (simp add: parse_sample_def)
  have sb: "localStorage (?browser ?bad) PROGRESS_KEY = Some ?bad"
    and sg: "localStorage (?browser ?good) PROGRESS_KEY = Some ?good"
    by simp_all
  obtain browser1 st1 where r1:
    "loadInitialData parse_sample ''0b9f'' (?browser ?bad, initialState) = Inr (browser1, st1)"
    "(case localStorage (?browser ?bad) PROGRESS_KEY of
        None \<Rightarrow> progress st1 = [] \<and> console browser1 = console (?browser ?bad)
      | Some s \<Rightarrow>
          (case parse_sample s of
             Inl e \<Rightarrow> progress st1 = []
               \<and> console browser1 = console (?browser ?bad) @
                    (if s = [] then []
                     else [(''Error parsing progress from localStorage:'', e)])
           | Inr parsed \<Rightarrow> progress st1 = parsed
               \<and> console browser1 = console (?browser ?bad)))"
    using h loadInitialData_recovers
      [where parse = parse_sample and uuid = "''0b9f''" and browser = "?browser ?bad"]
    by blast
  from r1(2) have "progress st1 = []
      \<and> console browser1 = [(''Error parsing progress from localStorage:'', JsonSyntaxError)]"
    unfolding sb by (simp add: pb)
  with r1(1) have bad: "\<exists>browser' st'.
        loadInitialData parse_sample ''0b9f'' (?browser ?bad, initialState) = Inr (browser', st')
        \<and> progress st' = []
        \<and> console browser' = [(''Error parsing progress from localStorage:'', JsonSyntaxError)]"
    by blast
  obtain browser2 st2 where r2:
    "loadInitialData parse_sample ''0b9f'' (?browser ?good, initialState) = Inr (browser2, st2)"
    "(case localStorage (?browser ?good) PROGRESS_KEY of
        None \<Rightarrow> progress st2 = [] \<and> console browser2 = console (?browser ?good)
      | Some s \<Rightarrow>
          (case parse_sample s of
             Inl e \<Rightarrow> progress st2 = []
               \<and> console browser2 = console (?browser ?good) @
                    (if s = [] then []
                     else [(''Error parsing progress from localStorage:'', e)])
           | Inr parsed \<Rightarrow> progress st2 = parsed
               \<and> console browser2 = console (?browser ?good)))"
    using h loadInitialData_recovers
      [where parse = parse_sample and uuid = "''0b9f''" and browser = "?browser ?good"]
    by blast
  from r2(2) have "progress st2 = [\<lparr>courseId = ''mm'', completedModules = [''mm-1'']\<rparr>]
      \<and> console browser2 = []"
    unfolding sg by (simp add: pg)
  with r2(1) have good: "\<exists>browser' st'.
        loadInitialData parse_sample ''0b9f'' (?browser ?good, initialState) = Inr (browser', st')
        \<and> progress st' = [\<lparr>courseId = ''mm'', completedModules = [''mm-1'']\<rparr>]
        \<and> console browser' = []"
    by blast
  from p0 pb bad pg good show ?thesis by blast
qed

section \<open>Properties of the request wrapper\<close>

lemma backoff_run:
  "backoff env i run =
     run\<lparr>drawn := drawn run + 1,
         trace := trace run @ [Sleep (2 ^ i * 1000 + rnd env (drawn run) * 1000)]\<rparr>"
  by (simp add: backoff_def random_def setTimeout_def)

lemma step_429:
  assumes "net env (fetched run) = Resolved r" "status r = 429" "i + 1 < maxRetries"
  shows "fetchLoop env maxRetries i run =
         fetchLoop env maxRetries (i + 1)
           (backoff env i (run\<lparr>fetched := fetched run + 1, trace := trace run @ [Fetch]\<rparr>))"
  using assms
  by (subst fetchLoop.simps) (simp add: attempt_def fetch_def ok_def split: option.splits)

lemma step_success:
  assumes "net env (fetched run) = Resolved r" "ok r" "json_body r = Some body"
    "i < maxRetries"
  shows "fetchLoop env maxRetries i run =
         (Inr body, run\<lparr>fetched := fetched run + 1, trace := trace run @ [Fetch]\<rparr>)"
  using assms
  by (subst fetchLoop.simps) (simp add: attempt_def fetch_def)

lemma step_error_retry:
  assumes "net env (fetched run) = Resolved r" "\<not> ok r" "status r \<noteq> 429"
    "i + 1 < maxRetries"
  shows "fetchLoop env maxRetries i run =
         fetchLoop env maxRetries (i + 1)
           (backoff env i (run\<lparr>fetched := fetched run + 1, trace := trace run @ [Fetch]\<rparr>))"
  using assms
  by (subst fetchLoop.simps)
     (simp add: attempt_def fetch_def split: option.splits json_value.splits)

lemma step_error_last:
  assumes "net env (fetched run) = Resolved r" "\<not> ok r" "i + 1 = maxRetries"
  shows "\<exists>e. fetchLoop env maxRetries i run =
         (Inl e, run\<lparr>fetched := fetched run + 1, trace := trace run @ [Fetch]\<rparr>)"
  using assms
  by (subst fetchLoop.simps)
     (auto simp: attempt_def fetch_def split: option.splits json_value.splits)

text \<open>
  Claim C4. With \<open>maxRetries = 5\<close>, when the first three fetches resolve with status 429
  and the fourth resolves with a success status and a JSON body, the call returns that
  parsed body. The trace is fetch, wait, fetch, wait, fetch, wait, fetch: exactly one wait
  before each re-attempt, of \<open>2^i * 1000\<close> milliseconds plus the jitter
  \<open>Math.random() * 1000\<close> for \<open>i = 0, 1, 2\<close>. With \<open>Math.random()\<close> in \<open>[0, 1)\<close> the
  three waits lie in \<open>[1000, 2000)\<close>, \<open>[2000, 3000)\<close> and \<open>[4000, 5000)\<close>, so the minimum
  delays 1000, 2000, 4000 and the waits themselves are strictly increasing.
\<close>

theorem rate_limited_three_times_then_success:
  assumes r0: "net env 0 = Resolved r0" "status r0 = 429"
      and r1: "net env 1 = Resolved r1" "status r1 = 429"
      and r2: "net env 2 = Resolved r2" "status r2 = 429"
      and r3: "net env 3 = Resolved r3" "ok r3" "json_body r3 = Some body"
      and jitter: "\<forall>k<3. 0 \<le> rnd env k \<and> rnd env k < 1"
  shows "fst (fetchWithExponentialBackoff env 5) = Inr body
     \<and> trace (snd (fetchWithExponentialBackoff env 5)) =
         [Fetch, Sleep (2 ^ 0 * 1000 + rnd env 0 * 1000),
          Fetch, Sleep (2 ^ 1 * 1000 + rnd env 1 * 1000),
          Fetch, Sleep (2 ^ 2 * 1000 + rnd env 2 * 1000),
          Fetch]
     \<and> 1000 \<le> 2 ^ 0 * 1000 + rnd env 0 * 1000 \<and> 2 ^ 0 * 1000 + rnd env 0 * 1000 < 2000
     \<and> 2000 \<le> 2 ^ 1 * 1000 + rnd env 1 * 1000 \<and> 2 ^ 1 * 1000 + rnd env 1 * 1000 < 3000
     \<and> 4000 \<le> 2 ^ 2 * 1000 + rnd env 2 * 1000 \<and> 2 ^ 2 * 1000 + rnd env 2 * 1000 < 5000"
proof -
  let ?run0 = "\<lparr>fetched = 0, drawn = 0, trace = []\<rparr>"
  let ?run1 = "\<lparr>fetched = 1, drawn = 1,
                trace = [Fetch, Sleep (2 ^ 0 * 1000 + rnd env 0 * 1000)]\<rparr>"
  let ?run2 = "\<lparr>fetched = 2, drawn = 2,
                trace = [Fetch, Sleep (2 ^ 0 * 1000 + rnd env 0 * 1000),
                         Fetch, Sleep (2 ^ 1 * 1000 + rnd env 1 * 1000)]\<rparr>"
  let ?run3 = "\<lparr>fetched = 3, drawn = 3,
                trace = [Fetch, Sleep (2 ^ 0 * 1000 + rnd env 0 * 1000),
                         Fetch, Sleep (2 ^ 1 * 1000 + rnd env 1 * 1000),
                         Fetch, Sleep (2 ^ 2 * 1000 + rnd env 2 * 1000)]\<rparr>"
  have "fetchLoop env 5 0 ?run0 = fetchLoop env 5 1 ?run1"
    using r0 by (subst step_429[where r = r0]) (simp_all add: backoff_run eval_nat_numeral)
  also have "\<dots> = fetchLoop env 5 2 ?run2"
    using r1 by (subst step_429[where r = r1]) (simp_all add: backoff_run eval_nat_numeral)
  also have "\<dots> = fetchLoop env 5 3 ?run3"
    using r2 by (subst step_429[where r = r2]) (simp_all add: backoff_run eval_nat_numeral)
  also have "\<dots> = (Inr body, ?run3\<lparr>fetched := 4, trace := trace ?run3 @ [Fetch]\<rparr>)"
    using r3 by (subst step_success[where r = r3 and body = body]) simp_all
  finally have run: "fetchWithExponentialBackoff env 5 =
      (Inr body, ?run3\<lparr>fetched := 4, trace := trace ?run3 @ [Fetch]\<rparr>)"
    by (simp add: fetchWithExponentialBackoff_def)
  have j0: "0 \<le> rnd env 0 \<and> rnd env 0 < 1" and j1: "0 \<le> rnd env 1 \<and> rnd env 1 < 1"
    and j2: "0 \<le> rnd env 2 \<and> rnd env 2 < 1"
    using jitter by simp_all
  show ?thesis
    using j0 j1 j2 by (simp add: run)
qed

theorem rate_limited_three_times_then_success_witness:
  "net rate_limited_then_ok 0 = Resolved rate_limited_response
   \<and> net rate_limited_then_ok 1 = Resolved rate_limited_response
   \<and> net rate_limited_then_ok 2 = Resolved rate_limited_response
   \<and> status rate_limited_response = 429
   \<and> net rate_limited_then_ok 3 = Resolved success_response
   \<and> ok success_response
   \<and> json_body success_response = Some (JObject [(''candidates'', JArray [])])
   \<and> fst (fetchWithExponentialBackoff rate_limited_then_ok 5)
       = Inr (JObject [(''candidates'', JArray [])])
   \<and> trace (snd (fetchWithExponentialBackoff rate_limited_then_ok 5))
       = [Fetch, Sleep 1500, Fetch, Sleep 2500, Fetch, Sleep 4500, Fetch]"
proof -
  let ?env = rate_limited_then_ok
  have n: "net ?env 0 = Resolved rate_limited_response"
    "net ?env 1 = Resolved rate_limited_response"
    "net ?env 2 = Resolved rate_limited_response"
    "net ?env 3 = Resolved success_response"
    by (simp_all add: rate_limited_then_ok_def)
  have s: "status rate_limited_response = 429"
    by (simp add: rate_limited_response_def)
  have o: "ok success_response"
    "json_body success_response = Some (JObject [(''candidates'', JArray [])])"
    by (simp_all add: ok_def success_response_def)
  have j: "\<forall>k<3. 0 \<le> rnd ?env k \<and> rnd ?env k < 1"
    by (simp add: rate_limited_then_ok_def)
  have rn: "\<And>k. rnd ?env k = 1 / 2"
    by (simp add: rate_limited_then_ok_def)
  have "fst (fetchWithExponentialBackoff ?env 5) = Inr (JObject [(''candidates'', JArray [])])
     \<and> trace (snd (fetchWithExponentialBackoff ?env 5)) =
         [Fetch, Sleep (2 ^ 0 * 1000 + rnd ?env 0 * 1000),
          Fetch, Sleep (2 ^ 1 * 1000 + rnd ?env 1 * 1000),
          Fetch, Sleep (2 ^ 2 * 1000 + rnd ?env 2 * 1000),
          Fetch]"
    using rate_limited_three_times_then_success
      [OF n(1) s n(2) s n(3) s n(4) o(1) o(2) j]
    by blast
  then have "fst (fetchWithExponentialBackoff ?env 5) = Inr (JObject [(''candidates'', JArray [])])
     \<and> trace (snd (fetchWithExponentialBackoff ?env 5)) =
         [Fetch, Sleep 1500, Fetch, Sleep 2500, Fetch, Sleep 4500, Fetch]"
    unfolding rn by simp
  with n s o show ?thesis by blast
qed

text \<open>
  Claim C2 says that a response with a failure status other than 429 ends the call at
  once, with no wait and no further fetch. The code does not do that. With the default
  \<open>maxRetries = 5\<close>, a first response with status 400 and a second with status 200: the
  \<^verbatim>\<open>Error\<close> thrown for the 400 is caught by the wrapper's own handler, which waits
  \<open>2^0 * 1000 + 0.5 * 1000 = 1500\<close> milliseconds and fetches again, and the call returns
  the body of the 200.
\<close>

theorem bad_request_is_retried:
  "status bad_request_response = 400
   \<and> \<not> ok bad_request_response
   \<and> fetchWithExponentialBackoff bad_request_then_ok 5 =
       (Inr (JObject [(''candidates'', JArray [])]),
        \<lparr>fetched = 2, drawn = 1, trace = [Fetch, Sleep 1500, Fetch]\<rparr>)"
proof -
  have "fetchLoop bad_request_then_ok 5 0 \<lparr>fetched = 0, drawn = 0, trace = []\<rparr>
        = fetchLoop bad_request_then_ok 5 1
            \<lparr>fetched = 1, drawn = 1, trace = [Fetch, Sleep 1500]\<rparr>"
    by (subst step_error_retry[where r = bad_request_response])
       (simp_all add: bad_request_then_ok_def bad_request_response_def ok_def backoff_run)
  also have "\<dots> = (Inr (JObject [(''candidates'', JArray [])]),
      \<lparr>fetched = 2, drawn = 1, trace = [Fetch, Sleep 1500, Fetch]\<rparr>)"
    by (subst step_success[where r = success_response
          and body = "JObject [(''candidates'', JArray [])]"])
       (simp_all add: bad_request_then_ok_def success_response_def ok_def)
  finally show ?thesis
    by (simp add: fetchWithExponentialBackoff_def bad_request_response_def ok_def)
qed

end
